theory Spec2Isabelle
  imports Complex_Main
begin

section \<open>Data model of \<open>scripts/analyze-engagement.py\<close>\<close>

text \<open>
  The script works on what \<open>json.load\<close> returns. A JSON object is a Python dict; it is
  represented by an association list in which the first binding of a key is the dict's
  value for it (\<open>map_of\<close>). A Python \<open>str\<close> is a sequence of code points; a \<open>char\<close> stands
  for the code point of the same number (U+0000 to U+00FF), so \<open>length\<close> is Python's
  \<open>len\<close> on such text; code points above U+00FF are outside the model.
  JSON numbers are the integer literals (Python's unbounded \<open>int\<close>); a literal with a
  fraction or an exponent (a Python \<open>float\<close>) is outside the model.
\<close>

datatype json =
    JNull
  | JBool bool
  | JInt int
  | JStr string
  | JArr "json list"
  | JObj "(string \<times> json) list"

text \<open>The exceptions the script can raise on such values.\<close>

datatype py_error = AttributeError | TypeError | IndexError | ValueError | ZeroDivisionError

subsection \<open>String methods\<close>

text \<open>\<open>s.startswith(pre)\<close>.\<close>

definition startswith :: "string \<Rightarrow> string \<Rightarrow> bool" where
  "startswith s pre = (take (length pre) s = pre)"

text \<open>
  \<open>str.isdigit\<close>: true when the string is not empty and every character has the Unicode
  property Numeric\_Type=Digit or Decimal. Up to U+00FF these are the ten ASCII digits and
  the superscripts U+00B2, U+00B3 and U+00B9.
\<close>

definition isdigit_char :: "char \<Rightarrow> bool" where
  "isdigit_char c =
     (let k = (of_char c :: nat)
      in (48 \<le> k \<and> k \<le> 57) \<or> k = 178 \<or> k = 179 \<or> k = 185)"

definition isdigit :: "string \<Rightarrow> bool" where
  "isdigit s = (s \<noteq> [] \<and> list_all isdigit_char s)"

subsection \<open>Platform classifier (lines 16--27)\<close>

text \<open>
  \<open>d.get(key, default)\<close> on a dict: the value stored under the key, whatever its type,
  and the default when the key is missing.
\<close>

definition dict_get :: "(string \<times> json) list \<Rightarrow> string \<Rightarrow> json \<Rightarrow> json" where
  "dict_get d key dflt = (case map_of d key of Some v \<Rightarrow> v | None \<Rightarrow> dflt)"

text \<open>
  \<open>is_twitter_post\<close>. Only a dict has \<open>get\<close>, and only a \<open>str\<close> has \<open>startswith\<close> and
  \<open>isdigit\<close>: every other receiver raises AttributeError. Both fields are read before
  either is tested, and the test of \<open>postId\<close> is reached only when the first rule fails.
\<close>

fun is_twitter_post :: "json \<Rightarrow> py_error + bool" where
  "is_twitter_post (JObj post) =
     (let subreddit = dict_get post ''subreddit'' (JStr '''');
          post_id = dict_get post ''postId'' (JStr '''')
      in case subreddit of
           JStr s \<Rightarrow>
             if startswith s ''@'' then Inr True
             else (case post_id of
                     JStr i \<Rightarrow> if isdigit i \<and> length i > 15 then Inr True else Inr False
                   | _ \<Rightarrow> Inl AttributeError)
         | _ \<Rightarrow> Inl AttributeError)"
| "is_twitter_post _ = Inl AttributeError"

subsection \<open>Python list and number primitives\<close>

text \<open>Sequencing of computations that may raise.\<close>

definition bind_err :: "'e + 'a \<Rightarrow> ('a \<Rightarrow> 'e + 'b) \<Rightarrow> 'e + 'b" where
  "bind_err m f = (case m of Inl e \<Rightarrow> Inl e | Inr x \<Rightarrow> f x)"

text \<open>
  \<open>xs[i]\<close>: an index from \<open>0\<close> to \<open>len(xs) - 1\<close> reads from the front, one from
  \<open>-len(xs)\<close> to \<open>-1\<close> reads from the back, and any other raises IndexError.
\<close>

definition py_index :: "'a list \<Rightarrow> int \<Rightarrow> py_error + 'a" where
  "py_index xs i =
     (if 0 \<le> i \<and> i < int (length xs) then Inr (xs ! nat i)
      else if - int (length xs) \<le> i \<and> i < 0 then Inr (xs ! nat (int (length xs) + i))
      else Inl IndexError)"

text \<open>\<open>min(xs)\<close> and \<open>max(xs)\<close>: ValueError on the empty list.\<close>

fun py_min :: "int list \<Rightarrow> py_error + int" where
  "py_min [] = Inl ValueError"
| "py_min (x # xs) = Inr (fold min xs x)"

fun py_max :: "int list \<Rightarrow> py_error + int" where
  "py_max [] = Inl ValueError"
| "py_max (x # xs) = Inr (fold max xs x)"

text \<open>
  \<open>a / b\<close> on two ints. Python rounds the quotient to the nearest double; the model keeps
  the exact quotient. No statement below depends on the mean.
\<close>

definition py_truediv :: "int \<Rightarrow> int \<Rightarrow> py_error + rat" where
  "py_truediv a b = (if b = 0 then Inl ZeroDivisionError else Inr (of_int a / of_int b))"

subsection \<open>Printed output\<close>

text \<open>
  Everything the analyzer prints for a sequence that is not empty (lines 61--98): the
  values that its lines carry, without the number formatting. The histogram has one
  entry (bucket, bar length, count) for each printed row.
\<close>

record report =
  r_label :: string
  r_n :: nat
  r_min :: int
  r_max :: int
  r_mean :: rat
  r_median :: int
  r_p10 :: int
  r_p25 :: int
  r_p50 :: int
  r_p75 :: int
  r_p90 :: int
  r_p95 :: int
  r_low :: nat
  r_medium :: nat
  r_high :: nat
  r_histogram :: "(int \<times> int \<times> nat) list"

text \<open>The dict that \<open>analyze_distribution\<close> returns (lines 100--107).\<close>

record summary =
  s_n :: nat
  s_mean :: rat
  s_median :: int
  s_p75 :: int
  s_p90 :: int
  s_p95 :: int

text \<open>
  One value for each block of \<open>print\<close> calls:
  \<^item> \<open>NoData label\<close>: line 32, ``label: No data'';
  \<^item> \<open>Distribution r\<close>: lines 61--98;
  \<^item> \<open>Comparison prefix pairs mean_diff over under close\<close>: lines 123--138;
  \<^item> \<open>ExportInfo date sessions calibration\<close>: lines 159--161;
  \<^item> \<open>PlatformBreakdown twitter reddit\<close>: lines 169--171;
  \<^item> \<open>SessionHeader\<close>: lines 190--192;
  \<^item> \<open>SessionBuckets label total rows\<close>: lines 201--204, one row for each printed bucket.
\<close>

datatype out =
    NoData string
  | Distribution report
  | Comparison string nat rat int int int
  | ExportInfo json nat nat
  | PlatformBreakdown nat nat
  | SessionHeader
  | SessionBuckets string nat "(string \<times> nat) list"

subsection \<open>Distribution analyzer (lines 29--107)\<close>

text \<open>
  The nested \<open>percentile(p)\<close> (lines 45--47), with the sorted list and its length as
  arguments. \<open>int(n * p / 100)\<close> is a true division followed by truncation toward zero;
  \<open>n * p\<close> is not negative, so this is the floor of the exact quotient. (The rounding of
  \<open>/\<close> to a double cannot reach the next integer while the quotient is below \<open>2^46\<close>.)
\<close>

definition percentile :: "int list \<Rightarrow> nat \<Rightarrow> int \<Rightarrow> py_error + int" where
  "percentile scores n p =
     (let idx = (int n * p) div 100
      in py_index scores (min idx (int n - 1)))"

text \<open>The three bucket counts (lines 57--59): \<open>sum(1 for s in scores if ...)\<close>.\<close>

definition low :: "int list \<Rightarrow> nat" where
  "low scores = length [s \<leftarrow> scores. s < 40]"

definition medium :: "int list \<Rightarrow> nat" where
  "medium scores = length [s \<leftarrow> scores. 40 \<le> s \<and> s < 70]"

definition high :: "int list \<Rightarrow> nat" where
  "high scores = length [s \<leftarrow> scores. s \<ge> 70]"

text \<open>
  The histogram (lines 82--92). \<open>bucket_count scores b\<close> is \<open>buckets.get(b, 0)\<close> once the
  loop of lines 83--85 has run; \<open>max_count\<close> is the largest value of the dict, whose keys
  are the buckets of the scores.
\<close>

definition bucket_of :: "int \<Rightarrow> int" where
  "bucket_of s = (s div 10) * 10"

definition bucket_count :: "int list \<Rightarrow> int \<Rightarrow> nat" where
  "bucket_count scores b = length [s \<leftarrow> scores. bucket_of s = b]"

definition max_count :: "int list \<Rightarrow> nat" where
  "max_count scores =
     (if scores = [] then 1
      else fold max (map (\<lambda>s. bucket_count scores (bucket_of s)) scores) 0)"

definition histogram :: "int list \<Rightarrow> (int \<times> int \<times> nat) list" where
  "histogram scores =
     map (\<lambda>k. let bucket = 10 * int k;
                  count = bucket_count scores bucket;
                  bar_len = (if max_count scores > 0
                             then (40 * int count) div int (max_count scores) else 0)
              in (bucket, bar_len, count))
       [0 ..< 11]"

text \<open>
  \<open>analyze_distribution(scores, label)\<close>: what it prints and what it returns (\<open>None\<close>
  for Python's \<open>None\<close>), or the exception it raises.
\<close>

definition analyze_distribution ::
  "int list \<Rightarrow> string \<Rightarrow> py_error + (out list \<times> summary option)" where
  "analyze_distribution scores0 label =
     (if scores0 = [] then Inr ([NoData label], None)
      else
        let scores = sort scores0;
            n = length scores
        in bind_err (py_truediv (sum_list scores) (int n)) (\<lambda>mean.
           bind_err (py_index scores (int n div 2)) (\<lambda>median.
           bind_err (py_min scores) (\<lambda>min_val.
           bind_err (py_max scores) (\<lambda>max_val.
           bind_err (percentile scores n 10) (\<lambda>p10.
           bind_err (percentile scores n 25) (\<lambda>p25.
           bind_err (percentile scores n 50) (\<lambda>p50.
           bind_err (percentile scores n 75) (\<lambda>p75.
           bind_err (percentile scores n 90) (\<lambda>p90.
           bind_err (percentile scores n 95) (\<lambda>p95.
             Inr ([Distribution
                     \<lparr>r_label = label, r_n = n, r_min = min_val, r_max = max_val,
                      r_mean = mean, r_median = median,
                      r_p10 = p10, r_p25 = p25, r_p50 = p50,
                      r_p75 = p75, r_p90 = p90, r_p95 = p95,
                      r_low = low scores, r_medium = medium scores, r_high = high scores,
                      r_histogram = histogram scores\<rparr>],
                  Some \<lparr>s_n = n, s_mean = mean, s_median = median,
                        s_p75 = p75, s_p90 = p90, s_p95 = p95\<rparr>))))))))))))"

subsection \<open>Scores of a partition and their comparison (lines 109--140)\<close>

text \<open>
  The records that reach \<open>analyze_by_source\<close> are dicts: \<open>main\<close> passes only records
  that \<open>is_twitter_post\<close> has accepted. The three list comprehensions of lines 111, 112
  and 118--120 keep the stored values as they are.
\<close>

definition heuristic_scores :: "(string \<times> json) list list \<Rightarrow> json list" where
  "heuristic_scores calibration =
     List.map_filter (\<lambda>p. map_of p ''heuristicScore'') calibration"

definition api_scores :: "(string \<times> json) list list \<Rightarrow> json list" where
  "api_scores calibration =
     List.map_filter
       (\<lambda>p. case map_of p ''apiScore'' of
              None \<Rightarrow> None
            | Some a \<Rightarrow> if a \<noteq> JNull then Some a else None)
       calibration"

definition paired :: "(string \<times> json) list list \<Rightarrow> (json \<times> json) list" where
  "paired calibration =
     List.map_filter
       (\<lambda>p. case map_of p ''heuristicScore'' of
              None \<Rightarrow> None
            | Some h \<Rightarrow>
                (case map_of p ''apiScore'' of
                   None \<Rightarrow> None
                 | Some a \<Rightarrow> if a \<noteq> JNull then Some (h, a) else None))
       calibration"

text \<open>
  A value that Python's arithmetic accepts: an \<open>int\<close>, or a \<open>bool\<close> (\<open>True\<close> is 1 and
  \<open>False\<close> is 0). On a list that holds any other value (\<open>None\<close>, a \<open>str\<close>, a list, a
  dict) \<open>sorted\<close> (line 35) or, at the latest, \<open>sum\<close> (line 39) raises TypeError.
\<close>

definition as_number :: "json \<Rightarrow> int option" where
  "as_number v =
     (case v of JInt i \<Rightarrow> Some i | JBool b \<Rightarrow> Some (if b then 1 else 0) | _ \<Rightarrow> None)"

definition numeric_scores :: "json list \<Rightarrow> py_error + int list" where
  "numeric_scores vs =
     (case those (map as_number vs) of Some xs \<Rightarrow> Inr xs | None \<Rightarrow> Inl TypeError)"

text \<open>\<open>a - b\<close> on two loaded values.\<close>

definition py_sub :: "json \<Rightarrow> json \<Rightarrow> py_error + int" where
  "py_sub a b =
     (case as_number a of
        None \<Rightarrow> Inl TypeError
      | Some x \<Rightarrow> (case as_number b of None \<Rightarrow> Inl TypeError | Some y \<Rightarrow> Inr (x - y)))"

text \<open>Line 128: \<open>[api - heur for heur, api in paired]\<close>.\<close>

fun diffs :: "(json \<times> json) list \<Rightarrow> py_error + int list" where
  "diffs [] = Inr []"
| "diffs ((heur, api) # ps) =
     bind_err (py_sub api heur) (\<lambda>d. bind_err (diffs ps) (\<lambda>ds. Inr (d # ds)))"

text \<open>Lines 131--133.\<close>

definition over :: "int list \<Rightarrow> int" where
  "over ds = int (length [d \<leftarrow> ds. d > 10])"

definition under :: "int list \<Rightarrow> int" where
  "under ds = int (length [d \<leftarrow> ds. d < - 10])"

definition close :: "int list \<Rightarrow> int" where
  "close ds = int (length ds) - over ds - under ds"

text \<open>
  \<open>analyze_by_source(calibration, label_prefix)\<close>: the output of the two analyzer calls
  and of the comparison block, and the pair of summaries that is returned. Each list of
  stored values goes to the analyzer as it is; \<open>numeric_scores\<close> in front of a call stands
  for the TypeError that the analyzer's \<open>sorted\<close> or \<open>sum\<close> raises on a value that is not a
  number.
\<close>

definition analyze_by_source ::
  "(string \<times> json) list list \<Rightarrow> string \<Rightarrow>
     py_error + (out list \<times> summary option \<times> summary option)" where
  "analyze_by_source calibration label_prefix =
     bind_err (numeric_scores (heuristic_scores calibration)) (\<lambda>hs.
     bind_err (analyze_distribution hs (label_prefix @ '' - Heuristic Scores'')) (\<lambda>(out_h, h_stats).
     bind_err (numeric_scores (api_scores calibration)) (\<lambda>as.
     bind_err (analyze_distribution as (label_prefix @ '' - API Scores'')) (\<lambda>(out_a, a_stats).
       if paired calibration \<noteq> [] then
         bind_err (diffs (paired calibration)) (\<lambda>ds.
         bind_err (py_truediv (sum_list ds) (int (length ds))) (\<lambda>mean_diff.
           Inr (out_h @ out_a @
                  [Comparison label_prefix (length (paired calibration)) mean_diff
                     (over ds) (under ds) (close ds)],
                h_stats, a_stats)))
       else Inr (out_h @ out_a, h_stats, a_stats)))))"

subsection \<open>Report driver (lines 157--204)\<close>

text \<open>
  \<open>len(x)\<close> and \<open>for e in x\<close> on a loaded value: a list gives its elements, a \<open>str\<close> its
  characters, a dict its keys; \<open>None\<close>, a \<open>bool\<close> and an \<open>int\<close> raise TypeError.
\<close>

definition py_iter :: "json \<Rightarrow> py_error + json list" where
  "py_iter v =
     (case v of
        JArr xs \<Rightarrow> Inr xs
      | JStr s \<Rightarrow> Inr (map (\<lambda>c. JStr [c]) s)
      | JObj d \<Rightarrow> Inr (map JStr (remdups (map fst d)))
      | _ \<Rightarrow> Inl TypeError)"

text \<open>
  \<open>[p for p in posts if is_twitter_post(p)]\<close> (\<open>want\<close> true) and
  \<open>[p for p in posts if not is_twitter_post(p)]\<close> (\<open>want\<close> false): the first record
  on which the classifier raises ends the comprehension. The records kept are dicts.
\<close>

fun select_posts :: "bool \<Rightarrow> json list \<Rightarrow> py_error + (string \<times> json) list list" where
  "select_posts want [] = Inr []"
| "select_posts want (p # ps) =
     bind_err (is_twitter_post p) (\<lambda>b.
     bind_err (select_posts want ps) (\<lambda>rest.
       case p of
         JObj d \<Rightarrow> Inr (if b = want then d # rest else rest)
       | _ \<Rightarrow> Inl AttributeError))"

text \<open>Lines 182--184: \<open>all_posts.extend(session.get('posts', []))\<close> for each session.\<close>

fun collect_posts :: "json list \<Rightarrow> py_error + json list" where
  "collect_posts [] = Inr []"
| "collect_posts (session # sessions) =
     (case session of
        JObj d \<Rightarrow>
          bind_err (py_iter (dict_get d ''posts'' (JArr []))) (\<lambda>posts.
          bind_err (collect_posts sessions) (\<lambda>rest. Inr (posts @ rest)))
      | _ \<Rightarrow> Inl AttributeError)"

text \<open>
  Lines 197--204 for one partition that is not empty. A bucket label is used as a dict
  key, so a list or a dict there raises TypeError (unhashable). A row is printed for each
  of the four names that is a key of the tally.
\<close>

definition hashable :: "json \<Rightarrow> bool" where
  "hashable v = (case v of JArr _ \<Rightarrow> False | JObj _ \<Rightarrow> False | _ \<Rightarrow> True)"

definition bucket_rows :: "string \<Rightarrow> (string \<times> json) list list \<Rightarrow> py_error + out list" where
  "bucket_rows label posts =
     (if posts = [] then Inr []
      else
        let labels = map (\<lambda>p. dict_get p ''bucket'' (JStr ''unknown'')) posts
        in if list_all hashable labels then
             Inr [SessionBuckets label (length posts)
                    (filter (\<lambda>(b, c). c > 0)
                       (map (\<lambda>b. (b, length [l \<leftarrow> labels. l = JStr b]))
                          [''low'', ''medium'', ''high'', ''unknown'']))]
           else Inl TypeError)"

text \<open>Lines 186--204.\<close>

definition session_report :: "json list \<Rightarrow> py_error + out list" where
  "session_report all_posts =
     (if all_posts = [] then Inr []
      else
        bind_err (select_posts True all_posts) (\<lambda>twitter_posts.
        bind_err (select_posts False all_posts) (\<lambda>reddit_posts.
        bind_err (bucket_rows ''Reddit'' reddit_posts) (\<lambda>out_r.
        bind_err (bucket_rows ''Twitter'' twitter_posts) (\<lambda>out_t.
          Inr ([SessionHeader] @ out_r @ out_t))))))"

text \<open>
  \<open>main\<close> from line 157 on, applied to the loaded document (the search for the export
  file and \<open>load_data\<close> are not modelled). The result is everything printed when the run
  ends normally, and the exception otherwise.
\<close>

definition run_partition :: "(string \<times> json) list list \<Rightarrow> string \<Rightarrow> py_error + out list" where
  "run_partition cal label_prefix =
     (if cal \<noteq> [] then bind_err (analyze_by_source cal label_prefix) (\<lambda>(outs, _). Inr outs)
      else Inr [])"

fun main :: "json \<Rightarrow> py_error + out list" where
  "main (JObj data) =
     bind_err (py_iter (dict_get data ''sessions'' (JArr []))) (\<lambda>sessions.
     bind_err (py_iter (dict_get data ''calibration'' (JArr []))) (\<lambda>calibration.
     bind_err (select_posts True calibration) (\<lambda>twitter_cal.
     bind_err (select_posts False calibration) (\<lambda>reddit_cal.
     bind_err (run_partition reddit_cal ''REDDIT'') (\<lambda>out_r.
     bind_err (run_partition twitter_cal ''TWITTER'') (\<lambda>out_t.
     bind_err (collect_posts sessions) (\<lambda>all_posts.
     bind_err (session_report all_posts) (\<lambda>out_s.
       Inr ([ExportInfo (dict_get data ''exportDate'' (JStr ''unknown''))
               (length sessions) (length calibration),
             PlatformBreakdown (length twitter_cal) (length reddit_cal)]
            @ out_r @ out_t @ out_s)))))))))"
| "main _ = Inl AttributeError"

section \<open>Platform classifier\<close>

lemma is_twitter_post_strings:
  assumes "dict_get post ''subreddit'' (JStr '''') = JStr s"
      and "dict_get post ''postId'' (JStr '''') = JStr i"
  shows "is_twitter_post (JObj post) = Inr (startswith s ''@'' \<or> (isdigit i \<and> length i > 15))"
  using assms by simp

lemma is_twitter_post_at:
  assumes "dict_get post ''subreddit'' (JStr '''') = JStr s" and "startswith s ''@''"
  shows "is_twitter_post (JObj post) = Inr True"
  using assms by simp

lemma not_isdigit_abc123: "\<not> isdigit ''abc123''"
  by (simp add: isdigit_def isdigit_char_def)

text \<open>
  Claim C1, as stated, says that a record is classified as forum whenever its subreddit
  does not start with \<open>@\<close> and it is not the case that the subreddit is absent or empty
  with a \<open>postId\<close> of more than 15 digits. The second rule of the code (line 25) does not
  look at the subreddit: the record with subreddit \<open>funny\<close> and a \<open>postId\<close> of 16 digits
  is classified as microblogging, although its subreddit is present, not empty and
  without \<open>@\<close>.
\<close>

theorem C1_classifier_counterexample:
  "is_twitter_post
     (JObj [(''subreddit'', JStr ''funny''), (''postId'', JStr ''1234567890123456'')])
     = Inr True
   \<and> \<not> startswith ''funny'' ''@''
   \<and> map_of [(''subreddit'', JStr ''funny''), (''postId'', JStr ''1234567890123456'')]
         ''subreddit'' = Some (JStr ''funny'')
   \<and> ''funny'' \<noteq> ''''"
  by (simp add: dict_get_def startswith_def isdigit_def isdigit_char_def)

text \<open>
  Claim C1, amended. For a record (a dict):
  \<^item> when the subreddit is a string that starts with \<open>@\<close>, the classifier returns true,
    whatever the \<open>postId\<close> is (a value of any type, or none);
  \<^item> when the subreddit is absent or empty and the \<open>postId\<close> is a string of digits longer
    than 15 characters, it returns true;
  \<^item> when the subreddit is absent or any string and the \<open>postId\<close> is absent or any string,
    it returns true exactly when the subreddit starts with \<open>@\<close> or the \<open>postId\<close> is all
    digits and longer than 15 characters (whatever the subreddit), and false otherwise;
  \<^item> the record with subreddit \<open>funny\<close> and \<open>postId\<close> \<open>abc123\<close> is classified as forum.
  An absent field reads as the empty string (\<open>dict_get\<close> with that default).
\<close>

theorem C1_classifier_rules:
  "(dict_get post ''subreddit'' (JStr '''') = JStr s \<and> startswith s ''@''
      \<longrightarrow> is_twitter_post (JObj post) = Inr True)
   \<and> ((map_of post ''subreddit'' = None \<or> map_of post ''subreddit'' = Some (JStr ''''))
        \<and> map_of post ''postId'' = Some (JStr i) \<and> isdigit i \<and> length i > 15
      \<longrightarrow> is_twitter_post (JObj post) = Inr True)
   \<and> (dict_get post ''subreddit'' (JStr '''') = JStr s
        \<and> dict_get post ''postId'' (JStr '''') = JStr i
      \<longrightarrow> is_twitter_post (JObj post)
            = Inr (startswith s ''@'' \<or> (isdigit i \<and> length i > 15)))
   \<and> is_twitter_post (JObj [(''subreddit'', JStr ''funny''), (''postId'', JStr ''abc123'')])
       = Inr False"
proof -
  have a: "is_twitter_post (JObj post) = Inr True"
    if "dict_get post ''subreddit'' (JStr '''') = JStr s \<and> startswith s ''@''"
    using that by (simp add: is_twitter_post_at)
  have b: "is_twitter_post (JObj post) = Inr True"
    if "(map_of post ''subreddit'' = None \<or> map_of post ''subreddit'' = Some (JStr ''''))
        \<and> map_of post ''postId'' = Some (JStr i) \<and> isdigit i \<and> length i > 15"
    using that by (auto simp: dict_get_def startswith_def)
  have c: "is_twitter_post (JObj post)
             = Inr (startswith s ''@'' \<or> (isdigit i \<and> length i > 15))"
    if "dict_get post ''subreddit'' (JStr '''') = JStr s
        \<and> dict_get post ''postId'' (JStr '''') = JStr i"
    using that by (simp add: is_twitter_post_strings)
  have d: "is_twitter_post (JObj [(''subreddit'', JStr ''funny''), (''postId'', JStr ''abc123'')])
             = Inr False"
    by (simp add: dict_get_def startswith_def not_isdigit_abc123)
  from a b c d show ?thesis by blast
qed

theorem C1_classifier_rules_witness:
  "dict_get [(''subreddit'', JStr ''@bob''), (''postId'', JNull)] ''subreddit'' (JStr '''')
     = JStr ''@bob''
   \<and> startswith ''@bob'' ''@''
   \<and> is_twitter_post (JObj [(''subreddit'', JStr ''@bob''), (''postId'', JNull)]) = Inr True
   \<and> map_of [(''postId'', JStr ''1234567890123456'')] ''subreddit'' = None
   \<and> map_of [(''postId'', JStr ''1234567890123456'')] ''postId''
       = Some (JStr ''1234567890123456'')
   \<and> isdigit ''1234567890123456'' \<and> length ''1234567890123456'' > 15
   \<and> is_twitter_post (JObj [(''postId'', JStr ''1234567890123456'')]) = Inr True
   \<and> dict_get [(''subreddit'', JStr ''funny'')] ''subreddit'' (JStr '''') = JStr ''funny''
   \<and> dict_get [(''subreddit'', JStr ''funny'')] ''postId'' (JStr '''') = JStr ''''
   \<and> is_twitter_post (JObj [(''subreddit'', JStr ''funny'')]) = Inr False"
  using
    C1_classifier_rules [of "[(''subreddit'', JStr ''@bob''), (''postId'', JNull)]" "''@bob''" "''''"]
    C1_classifier_rules [of "[(''postId'', JStr ''1234567890123456'')]" "''''" "''1234567890123456''"]
    C1_classifier_rules [of "[(''subreddit'', JStr ''funny'')]" "''funny''" "''''"]
  by (simp add: dict_get_def startswith_def isdigit_def isdigit_char_def)

text \<open>
  Claim C2, as stated, says that the classifier completes on a record whose subreddit or
  \<open>postId\<close> is null or of any JSON type. \<open>post.get(key, '')\<close> gives the default only for a
  missing key: a subreddit that is present and null reaches \<open>startswith\<close> and raises
  AttributeError, and so does a \<open>postId\<close> that is a number once the first rule has failed.
\<close>

theorem C2_classifier_counterexample:
  "is_twitter_post (JObj [(''subreddit'', JNull)]) = Inl AttributeError
   \<and> is_twitter_post (JObj [(''subreddit'', JStr ''funny''), (''postId'', JInt 7)])
       = Inl AttributeError"
  by (simp add: dict_get_def startswith_def)

text \<open>
  Claim C2, amended. On every record in which the subreddit is absent or a string and
  the \<open>postId\<close> is absent or a string (empty strings included), the classifier completes
  and returns a boolean; and a missing field is treated as the empty string: the result
  is the one for the record with the field set to \<open>''\<close>.
\<close>

theorem C2_classifier_total_on_strings:
  "(dict_get post ''subreddit'' (JStr '''') = JStr s
      \<and> dict_get post ''postId'' (JStr '''') = JStr i
      \<longrightarrow> (\<exists>b. is_twitter_post (JObj post) = Inr b))
   \<and> (map_of post ''subreddit'' = None
      \<longrightarrow> is_twitter_post (JObj post)
            = is_twitter_post (JObj ((''subreddit'', JStr '''') # post)))
   \<and> (map_of post ''postId'' = None
      \<longrightarrow> is_twitter_post (JObj post)
            = is_twitter_post (JObj ((''postId'', JStr '''') # post)))"
  by (auto simp: dict_get_def)

theorem C2_classifier_total_on_strings_witness:
  "dict_get [] ''subreddit'' (JStr '''') = JStr ''''
   \<and> dict_get [] ''postId'' (JStr '''') = JStr ''''
   \<and> map_of ([] :: (string \<times> json) list) ''subreddit'' = None
   \<and> map_of ([] :: (string \<times> json) list) ''postId'' = None
   \<and> (\<exists>b. is_twitter_post (JObj []) = Inr b)
   \<and> is_twitter_post (JObj []) = is_twitter_post (JObj [(''subreddit'', JStr '''')])
   \<and> is_twitter_post (JObj []) = is_twitter_post (JObj [(''postId'', JStr '''')])"
  using C2_classifier_total_on_strings [of "[]" "''''" "''''"]
  by (simp add: dict_get_def)

section \<open>Distribution analyzer\<close>























section \<open>Scores of a partition and their comparison\<close>














section \<open>Missing data and the report driver\<close>



text \<open>
  Claim C9, as stated, says that for the document whose calibration is the single record
  \<open>{heuristicScore: 30, apiScore: 45, subreddit: "@bob", postId: ""}\<close> the analyzers of
  the Reddit partition report ``No data''. The record is classified as microblogging, so
  the Reddit partition is empty, and \<open>main\<close> runs \<open>analyze_by_source\<close> only on a
  partition that is not empty (line 174): the run ends normally and neither
  ``REDDIT - Heuristic Scores: No data'' nor ``REDDIT - API Scores: No data'' is printed.
\<close>

theorem C9_end_to_end_counterexample:
  "\<not> isl (main (JObj [(''calibration'',
          JArr [JObj [(''heuristicScore'', JInt 30), (''apiScore'', JInt 45),
                      (''subreddit'', JStr ''@bob''), (''postId'', JStr '''')]])]))
   \<and> NoData ''REDDIT - Heuristic Scores''
        \<notin> set (projr (main (JObj [(''calibration'',
          JArr [JObj [(''heuristicScore'', JInt 30), (''apiScore'', JInt 45),
                      (''subreddit'', JStr ''@bob''), (''postId'', JStr '''')]])])))
   \<and> NoData ''REDDIT - API Scores''
        \<notin> set (projr (main (JObj [(''calibration'',
          JArr [JObj [(''heuristicScore'', JInt 30), (''apiScore'', JInt 45),
                      (''subreddit'', JStr ''@bob''), (''postId'', JStr '''')]])])))"
  by code_simp

text \<open>
  Claim C9, amended. For that document the tool classifies all calibration data as
  microblogging (the breakdown is one Twitter record and no Reddit record) and skips the
  Reddit partition silently: its analyzers are not run and print nothing. The whole
  output is the export block, the breakdown, the two distribution reports of the
  Twitter partition and its comparison block (one pair, difference 15, counted as over).
\<close>

theorem C9_end_to_end:
  "select_posts True
     [JObj [(''heuristicScore'', JInt 30), (''apiScore'', JInt 45),
            (''subreddit'', JStr ''@bob''), (''postId'', JStr '''')]]
     = Inr [[(''heuristicScore'', JInt 30), (''apiScore'', JInt 45),
             (''subreddit'', JStr ''@bob''), (''postId'', JStr '''')]]
   \<and> select_posts False
     [JObj [(''heuristicScore'', JInt 30), (''apiScore'', JInt 45),
            (''subreddit'', JStr ''@bob''), (''postId'', JStr '''')]]
     = Inr []
   \<and> run_partition [] ''REDDIT'' = Inr []
   \<and> main (JObj [(''calibration'',
          JArr [JObj [(''heuristicScore'', JInt 30), (''apiScore'', JInt 45),
                      (''subreddit'', JStr ''@bob''), (''postId'', JStr '''')]])])
     = Inr [ExportInfo (JStr ''unknown'') 0 1, PlatformBreakdown 1 0,
            Distribution
              \<lparr>r_label = ''TWITTER - Heuristic Scores'', r_n = 1, r_min = 30, r_max = 30,
               r_mean = 30, r_median = 30, r_p10 = 30, r_p25 = 30, r_p50 = 30,
               r_p75 = 30, r_p90 = 30, r_p95 = 30, r_low = 1, r_medium = 0, r_high = 0,
               r_histogram =
                 [(0, 0, 0), (10, 0, 0), (20, 0, 0), (30, 40, 1), (40, 0, 0), (50, 0, 0),
                  (60, 0, 0), (70, 0, 0), (80, 0, 0), (90, 0, 0), (100, 0, 0)]\<rparr>,
            Distribution
              \<lparr>r_label = ''TWITTER - API Scores'', r_n = 1, r_min = 45, r_max = 45,
               r_mean = 45, r_median = 45, r_p10 = 45, r_p25 = 45, r_p50 = 45,
               r_p75 = 45, r_p90 = 45, r_p95 = 45, r_low = 0, r_medium = 1, r_high = 0,
               r_histogram =
                 [(0, 0, 0), (10, 0, 0), (20, 0, 0), (30, 0, 0), (40, 40, 1), (50, 0, 0),
                  (60, 0, 0), (70, 0, 0), (80, 0, 0), (90, 0, 0), (100, 0, 0)]\<rparr>,
            Comparison ''TWITTER'' 1 15 1 0 0]"
  by code_simp

end
